theory Spec2Isabelle
  imports Main "HOL-Library.Multiset"
begin

section \<open>Open shop instances: the parser of \<open>openshop.py\<close>\<close>

text \<open>
  The development embeds class \<open>OpenShopProblem\<close> of \<open>src/openshop.py\<close>.
  A Python exception is a value of type \<open>error\<close>; a call that may raise returns
  \<open>error + 'a\<close>, with \<open>Inl\<close> for the exception.  Only the two exceptions that the
  parser can raise on a list of text lines are needed.
\<close>

datatype error = IndexError | ValueError

definition bind_result :: "error + 'a \<Rightarrow> ('a \<Rightarrow> error + 'b) \<Rightarrow> error + 'b" where
  "bind_result r f = (case r of Inl e \<Rightarrow> Inl e | Inr x \<Rightarrow> f x)"

text \<open>
  A list comprehension or a \<open>for\<close> loop that appends one result per element: elements are
  visited from left to right and the first exception ends the whole loop.
\<close>

fun map_result :: "('a \<Rightarrow> error + 'b) \<Rightarrow> 'a list \<Rightarrow> error + 'b list" where
  "map_result f [] = Inr []"
| "map_result f (x # xs) =
     (case f x of
        Inl e \<Rightarrow> Inl e
      | Inr y \<Rightarrow> (case map_result f xs of Inl e \<Rightarrow> Inl e | Inr ys \<Rightarrow> Inr (y # ys)))"

subsection \<open>Python built-ins used by the parser\<close>

text \<open>\<open>xs[i]\<close> for an index that is never negative.\<close>

definition nth_py :: "'a list \<Rightarrow> nat \<Rightarrow> error + 'a" where
  "nth_py xs i = (if i < length xs then Inr (xs ! i) else Inl IndexError)"

text \<open>\<open>xs.index(v)\<close>: the first position holding \<open>v\<close>, or \<open>ValueError\<close>.\<close>

fun index_py :: "'a list \<Rightarrow> 'a \<Rightarrow> error + nat" where
  "index_py [] v = Inl ValueError"
| "index_py (x # xs) v =
     (if x = v then Inr 0
      else (case index_py xs v of Inl e \<Rightarrow> Inl e | Inr p \<Rightarrow> Inr (Suc p)))"

text \<open>
  \<open>range(a, b)\<close> and \<open>range(n)\<close>, as lists of indices.  Both are empty when the upper
  bound is too small.  The parser calls \<open>range(3, 3 + n)\<close> and \<open>range(4 + n, 4 + 2 * n)\<close>
  only: there a negative lower bound comes with a negative upper bound, and the range is
  empty in Python and here.
\<close>

definition range_py :: "int \<Rightarrow> int \<Rightarrow> nat list" where
  "range_py a b = [nat a ..< nat b]"

definition range1_py :: "int \<Rightarrow> nat list" where
  "range1_py n = [0 ..< nat n]"

text \<open>
  A character is a code point below 256.  The white space of \<open>str.strip\<close> and
  \<open>str.split\<close> among these code points is tab, line feed, vertical tab, form feed,
  carriage return, the four separators \<open>0x1c\<close> to \<open>0x1f\<close>, the blank, next line
  (\<open>0x85\<close>) and the no-break space (\<open>0xa0\<close>).
\<close>

definition is_space :: "char \<Rightarrow> bool" where
  "is_space c =
     ((of_char c :: nat) \<in> set [9, 10, 11, 12, 13, 28, 29, 30, 31, 32, 133, 160])"

definition strip_py :: "string \<Rightarrow> string" where
  "strip_py s = rev (dropWhile is_space (rev (dropWhile is_space s)))"

text \<open>\<open>s.split()\<close>: the maximal runs of characters that are not white space.\<close>

fun split_run :: "string \<Rightarrow> string \<Rightarrow> string list" where
  "split_run cur [] = (if cur = [] then [] else [cur])"
| "split_run cur (c # cs) =
     (if is_space c then (if cur = [] then split_run [] cs else cur # split_run [] cs)
      else split_run (cur @ [c]) cs)"

definition split_py :: "string \<Rightarrow> string list" where
  "split_py s = split_run [] s"

text \<open>
  \<open>int(x)\<close> on a token without white space: an optional sign, then decimal digits in
  which single underscores may separate digits.  Anything else is a \<open>ValueError\<close>; below
  code point 256 the only decimal digits are \<open>0\<close> to \<open>9\<close>.
  (The interpreter's optional limit on the number of digits is not part of the model.)
\<close>

definition is_digit :: "char \<Rightarrow> bool" where
  "is_digit c = (48 \<le> (of_char c :: nat) \<and> (of_char c :: nat) \<le> 57)"

definition digit_val :: "char \<Rightarrow> int" where
  "digit_val c = int (of_char c) - 48"

fun digits_py :: "bool \<Rightarrow> int \<Rightarrow> string \<Rightarrow> error + int" where
  "digits_py after_digit acc [] = (if after_digit then Inr acc else Inl ValueError)"
| "digits_py after_digit acc (c # cs) =
     (if is_digit c then digits_py True (10 * acc + digit_val c) cs
      else if c = CHR ''_'' \<and> after_digit then digits_py False acc cs
      else Inl ValueError)"

definition int_py :: "string \<Rightarrow> error + int" where
  "int_py s =
     (case s of
        [] \<Rightarrow> Inl ValueError
      | c # cs \<Rightarrow>
          if c = CHR ''-'' then bind_result (digits_py False 0 cs) (\<lambda>v. Inr (- v))
          else if c = CHR ''+'' then digits_py False 0 cs
          else digits_py False 0 s)"

subsection \<open>\<open>_read_instance\<close>\<close>

text \<open>
  The input is the list returned by \<open>f.readlines()\<close>; opening the file and resolving its
  path are outside the model.
  \<^verbatim>\<open>lines = [line.strip() for line in lines if line.strip()]\<close>
\<close>

definition strip_lines :: "string list \<Rightarrow> string list" where
  "strip_lines raw = map strip_py (filter (\<lambda>line. strip_py line \<noteq> []) raw)"

text \<open>
  \<^verbatim>\<open>tokens = lines[1].split()
nb_jobs = int(tokens[0])
nb_machines = int(tokens[1])\<close>
\<close>

definition read_header :: "string list \<Rightarrow> error + (int \<times> int)" where
  "read_header lines =
     bind_result (nth_py lines 1) (\<lambda>line.
       let tokens = split_py line in
       bind_result (nth_py tokens 0) (\<lambda>t0.
       bind_result (int_py t0) (\<lambda>nb_jobs.
       bind_result (nth_py tokens 1) (\<lambda>t1.
       bind_result (int_py t1) (\<lambda>nb_machines.
       Inr (nb_jobs, nb_machines))))))"

text \<open>\<^verbatim>\<open>times = [int(x) for x in lines[i].split()]\<close>\<close>

definition read_times :: "string list \<Rightarrow> nat \<Rightarrow> error + int list" where
  "read_times lines i =
     bind_result (nth_py lines i) (\<lambda>line. map_result int_py (split_py line))"

text \<open>\<^verbatim>\<open>indices = [int(x) - 1 for x in lines[i].split()]\<close>\<close>

definition read_indices :: "string list \<Rightarrow> nat \<Rightarrow> error + int list" where
  "read_indices lines i =
     bind_result (nth_py lines i) (\<lambda>line.
       map_result (\<lambda>x. bind_result (int_py x) (\<lambda>v. Inr (v - 1))) (split_py line))"

text \<open>
  The first half of \<open>_read_instance\<close>: the header and the two tables as they stand in
  the file, \<open>processing_times_task_order\<close> and \<open>machine_index\<close>.
\<close>

definition read_tables ::
  "string list \<Rightarrow> error + (int \<times> int \<times> int list list \<times> int list list)" where
  "read_tables raw =
     (let lines = strip_lines raw in
      bind_result (read_header lines) (\<lambda>(nb_jobs, nb_machines).
      bind_result (map_result (read_times lines) (range_py 3 (3 + nb_jobs)))
        (\<lambda>processing_times_task_order.
      bind_result (map_result (read_indices lines) (range_py (4 + nb_jobs) (4 + 2 * nb_jobs)))
        (\<lambda>machine_index.
      Inr (nb_jobs, nb_machines, processing_times_task_order, machine_index)))))"

text \<open>
  The reordering loops.
  \<^verbatim>\<open>pos = machine_index[j].index(m)
proc.append(processing_times_task_order[j][pos])\<close>
\<close>

definition reorder_entry :: "int list list \<Rightarrow> int list list \<Rightarrow> nat \<Rightarrow> nat \<Rightarrow> error + int" where
  "reorder_entry processing_times_task_order machine_index j m =
     bind_result (nth_py machine_index j) (\<lambda>indices.
     bind_result (index_py indices (int m)) (\<lambda>pos.
     bind_result (nth_py processing_times_task_order j) (\<lambda>durations.
     nth_py durations pos)))"

definition reorder ::
  "int \<Rightarrow> int \<Rightarrow> int list list \<Rightarrow> int list list \<Rightarrow> error + int list list" where
  "reorder nb_jobs nb_machines processing_times_task_order machine_index =
     map_result
       (\<lambda>j. map_result (reorder_entry processing_times_task_order machine_index j)
              (range1_py nb_machines))
       (range1_py nb_jobs)"

text \<open>\<^verbatim>\<open>max_start = sum(sum(job) for job in processing_times)\<close>\<close>

definition read_instance ::
  "string list \<Rightarrow> error + (int \<times> int \<times> int list list \<times> int)" where
  "read_instance raw =
     bind_result (read_tables raw)
       (\<lambda>(nb_jobs, nb_machines, processing_times_task_order, machine_index).
     bind_result (reorder nb_jobs nb_machines processing_times_task_order machine_index)
       (\<lambda>processing_times.
     Inr (nb_jobs, nb_machines, processing_times,
          sum_list (map sum_list processing_times))))"

subsection \<open>The problem object\<close>

text \<open>\<open>__init__\<close> stores the four results of \<open>_read_instance\<close> in the object.\<close>

record open_shop_problem =
  nb_jobs :: int
  nb_machines :: int
  processing_times :: "int list list"
  max_start :: int

definition init :: "string list \<Rightarrow> error + open_shop_problem" where
  "init raw =
     bind_result (read_instance raw) (\<lambda>(n, m, p, s).
       Inr \<lparr>nb_jobs = n, nb_machines = m, processing_times = p, max_start = s\<rparr>)"

subsection \<open>Python values\<close>

text \<open>
  The argument of \<open>evaluate_solution\<close> is any Python value.  A dictionary is the list of
  its items in insertion order; \<open>PyObject\<close> stands for an object of any other class.
\<close>

datatype pyval =
    PyNone
  | PyBool bool
  | PyInt int
  | PyStr string
  | PyList "pyval list"
  | PyDict "(pyval \<times> pyval) list"
  | PyObject nat

fun isinstance_dict :: "pyval \<Rightarrow> bool" where
  "isinstance_dict (PyDict items) = True"
| "isinstance_dict v = False"

text \<open>\<open>key in d\<close> and \<open>d.get(key, default)\<close> for a dictionary \<open>d\<close>.\<close>

fun dict_contains :: "pyval \<Rightarrow> pyval \<Rightarrow> bool" where
  "dict_contains (PyDict items) key = (map_of items key \<noteq> None)"
| "dict_contains v key = False"

fun dict_get :: "pyval \<Rightarrow> pyval \<Rightarrow> pyval \<Rightarrow> pyval" where
  "dict_get (PyDict items) key dflt =
     (case map_of items key of None \<Rightarrow> dflt | Some v \<Rightarrow> v)"
| "dict_get v key dflt = dflt"

subsection \<open>The state around a method call\<close>

text \<open>
  A method call runs against the object \<open>self\<close> and the generator of module
  \<open>random\<close>, which is shared by the whole process.  The generator is the sequence of
  the raw numbers it will still deliver; \<open>randbelow n\<close> takes the next one into
  \<open>[0, n)\<close>.  Every run of outcomes of \<open>randbelow\<close> is delivered by some sequence.
\<close>

type_synonym rng = "nat \<Rightarrow> nat"

record state =
  self :: open_shop_problem
  rng :: rng

definition randbelow :: "nat \<Rightarrow> rng \<Rightarrow> nat \<times> rng" where
  "randbelow n g = (g 0 mod n, \<lambda>k. g (Suc k))"

text \<open>
  \<open>random.shuffle(x)\<close>, as the standard library does it:
  \<^verbatim>\<open>for i in reversed(range(1, len(x))):
    j = randbelow(i + 1)
    x[i], x[j] = x[j], x[i]\<close>
\<close>

fun shuffle_loop :: "nat list \<Rightarrow> 'a list \<Rightarrow> rng \<Rightarrow> 'a list \<times> rng" where
  "shuffle_loop [] x g = (x, g)"
| "shuffle_loop (i # rest) x g =
     (case randbelow (i + 1) g of
        (j, g') \<Rightarrow> shuffle_loop rest (x[i := x ! j, j := x ! i]) g')"

definition shuffle :: "'a list \<Rightarrow> rng \<Rightarrow> 'a list \<times> rng" where
  "shuffle x g = shuffle_loop (rev [1 ..< length x]) x g"

subsection \<open>\<open>evaluate_solution\<close>\<close>

definition evaluate_solution :: "pyval \<Rightarrow> state \<Rightarrow> pyval \<times> state" where
  "evaluate_solution solution st =
     (if \<not> isinstance_dict solution
         \<or> \<not> dict_contains solution (PyStr ''jobs_order'')
         \<or> \<not> dict_contains solution (PyStr ''machines_order'')
      then (PyInt 1000000000, st)
      else (dict_get solution (PyStr ''objective'') (PyInt 1000000000), st))"

subsection \<open>\<open>random_solution\<close>\<close>

text \<open>
  Each of the two loops of \<open>random_solution\<close> appends, once per element of its range, a
  shuffled copy of \<open>list(range(n))\<close>:
  \<^verbatim>\<open>for m in range(self.nb_machines):
    order = list(range(self.nb_jobs))
    random.shuffle(order)
    jobs_order.append(order)\<close>
\<close>

fun orders_loop :: "nat list \<Rightarrow> int \<Rightarrow> rng \<Rightarrow> int list list \<times> rng" where
  "orders_loop [] n g = ([], g)"
| "orders_loop (m # rest) n g =
     (case shuffle (map int (range1_py n)) g of
        (order, g') \<Rightarrow>
          (case orders_loop rest n g' of (orders, g'') \<Rightarrow> (order # orders, g'')))"

definition py_orders :: "int list list \<Rightarrow> pyval" where
  "py_orders orders = PyList (map (\<lambda>order. PyList (map PyInt order)) orders)"

definition random_solution :: "state \<Rightarrow> pyval \<times> state" where
  "random_solution st =
     (case orders_loop (range1_py (nb_machines (self st))) (nb_jobs (self st)) (rng st) of
        (jobs_order, g') \<Rightarrow>
          (case orders_loop (range1_py (nb_jobs (self st))) (nb_machines (self st)) g' of
             (machines_order, g'') \<Rightarrow>
               (PyDict [(PyStr ''jobs_order'', py_orders jobs_order),
                        (PyStr ''machines_order'', py_orders machines_order)],
                st\<lparr>rng := g''\<rparr>)))"

subsection \<open>Well-formed instance files\<close>

text \<open>
  A list of integers is a permutation of \<open>[0, n)\<close> when sorting it gives
  \<open>0, 1, \<dots>, n - 1\<close>.
\<close>

definition is_permutation :: "int list \<Rightarrow> int \<Rightarrow> bool" where
  "is_permutation xs n = (sort xs = map int (range1_py n))"

text \<open>
  The layout of a well-formed file: the header and both tables can be read, every
  duration line has \<open>nb_machines\<close> integers, and every machine line, once its entries
  are made 0-indexed, is a permutation of \<open>[0, nb_machines)\<close>.
\<close>

definition well_formed_layout :: "string list \<Rightarrow> bool" where
  "well_formed_layout raw =
     (case read_tables raw of
        Inl e \<Rightarrow> False
      | Inr (n, m, durations, machines) \<Rightarrow>
          list_all2 (\<lambda>ds ms. length ds = nat m \<and> is_permutation ms m) durations machines)"

text \<open>
  A well-formed instance file has this layout and holds the numbers of an instance of
  the data model: both counts are positive and no duration is negative.
\<close>

definition well_formed :: "string list \<Rightarrow> bool" where
  "well_formed raw =
     (well_formed_layout raw \<and>
      (case read_tables raw of
         Inl e \<Rightarrow> False
       | Inr (n, m, durations, machines) \<Rightarrow>
           0 < n \<and> 0 < m \<and> list_all (list_all (\<lambda>d. 0 \<le> d)) durations))"

subsection \<open>Concrete files and states\<close>

text \<open>
  The instance of the concrete scenario, as a file: two jobs, two machines, durations
  \<open>[[3,5],[4,2]]\<close> in task order and machines \<open>[[2,1],[1,2]]\<close>, 1-indexed.
\<close>

definition scenario_file :: "string list" where
  "scenario_file =
     [''instance'' @ [CHR 0x0A], ''2 2 100 200'' @ [CHR 0x0A], ''times'' @ [CHR 0x0A],
      ''3 5'' @ [CHR 0x0A], ''4 2'' @ [CHR 0x0A], ''machines'' @ [CHR 0x0A],
      ''2 1'' @ [CHR 0x0A], ''1 2'' @ [CHR 0x0A]]"

text \<open>Files for the machine lists: one without machine 2, one that names machine 1 twice.\<close>

definition missing_machine_file :: "string list" where
  "missing_machine_file =
     [''instance'', ''1 2'', ''times'', ''3 5'', ''machines'', ''1 1'']"

definition duplicate_machine_file :: "string list" where
  "duplicate_machine_file =
     [''instance'', ''1 2'', ''times'', ''3 5 7'', ''machines'', ''1 1 2'']"

text \<open>
  Every token of the duration lines and machine lines that are present, for \<open>n\<close> jobs,
  is an integer.
\<close>

definition data_tokens_are_integers :: "string list \<Rightarrow> int \<Rightarrow> bool" where
  "data_tokens_are_integers lines n =
     (\<forall>i\<in>set (range_py 3 (3 + n) @ range_py (4 + n) (4 + 2 * n)).
        i < length lines \<longrightarrow> (\<forall>t\<in>set (split_py (lines ! i)). \<not> isl (int_py t)))"

text \<open>Files that are too short: a lone title line, and a file cut before its last line.\<close>

definition title_only_file :: "string list" where
  "title_only_file = [''instance'' @ [CHR 0x0A], [CHR 0x0A]]"

definition truncated_file :: "string list" where
  "truncated_file =
     [''instance'', ''2 2'', ''times'', ''3 5'', ''4 2'', ''machines'', ''2 1'']"

text \<open>
  A short file with a token that is no integer, and a file whose header announces no
  job.
\<close>

definition short_bad_token_file :: "string list" where
  "short_bad_token_file = [''instance'', ''2 2'', ''times'', ''3 x'']"

definition no_job_file :: "string list" where
  "no_job_file = [''instance'', ''0 3'']"

text \<open>
  Files with white space beyond ASCII: a line that is a lone next-line character, in
  three places, and a no-break space between two durations.
\<close>

definition next_line_before_times_file :: "string list" where
  "next_line_before_times_file = [''t'', ''1 1'', [CHR 0x85], ''3'', ''m'', ''1'']"

definition next_line_before_machines_file :: "string list" where
  "next_line_before_machines_file =
     [''t'', ''1 2'', ''times'', ''3 5'', [CHR 0x85], ''1 1'', ''2 1'']"

definition next_line_first_file :: "string list" where
  "next_line_first_file = [[CHR 0x85], ''1 1'', ''0 5'']"

definition no_break_space_file :: "string list" where
  "no_break_space_file =
     [''t'', ''1 2'', ''times'', [CHR ''3'', CHR 0xA0, CHR ''5''], ''m'', ''2 1'']"

text \<open>A file with a negative duration.\<close>

definition negative_duration_file :: "string list" where
  "negative_duration_file =
     [''instance'', ''1 2'', ''times'', ''-3 5'', ''machines'', ''2 1'']"

text \<open>
  A state for concrete calls: the instance of the scenario and a generator that delivers
  \<open>0, 1, 2, \<dots>\<close>.
\<close>

definition scenario_state :: state where
  "scenario_state =
     \<lparr>self = \<lparr>nb_jobs = 2, nb_machines = 2, processing_times = [[5, 3], [4, 2]],
              max_start = 14\<rparr>,
      rng = (\<lambda>k. k)\<rparr>"

section \<open>Properties of the parser\<close>

subsection \<open>Loops and look-ups\<close>

lemma map_result_Inr_iff:
  "map_result f xs = Inr ys \<longleftrightarrow> list_all2 (\<lambda>x y. f x = Inr y) xs ys"
proof (induction xs arbitrary: ys)
  case Nil
  then show ?case by auto
next
  case (Cons x xs)
  show ?case
    by (cases ys; cases "f x"; cases "map_result f xs") (auto simp: Cons.IH[symmetric])
qed

lemma map_result_Inl:
  "map_result f xs = Inl e \<Longrightarrow> \<exists>x\<in>set xs. f x = Inl e"
  by (induction xs) (auto split: sum.splits)

lemma map_result_fails:
  "x \<in> set xs \<Longrightarrow> f x = Inl e \<Longrightarrow> \<exists>e'. map_result f xs = Inl e'"
  by (induction xs) (auto split: sum.splits)

lemma map_result_succeeds:
  "(\<And>x. x \<in> set xs \<Longrightarrow> \<exists>y. f x = Inr y) \<Longrightarrow> \<exists>ys. map_result f xs = Inr ys"
proof (induction xs)
  case Nil
  then show ?case by simp
next
  case (Cons x xs)
  then obtain y where "f x = Inr y" by fastforce
  moreover from Cons obtain ys where "map_result f xs = Inr ys" by fastforce
  ultimately show ?case by simp
qed

lemma index_py_Inr:
  "index_py xs v = Inr p \<Longrightarrow> p < length xs \<and> xs ! p = v \<and> (\<forall>q<p. xs ! q \<noteq> v)"
proof (induction xs arbitrary: p)
  case Nil
  then show ?case by simp
next
  case (Cons x xs)
  show ?case
  proof (cases "x = v")
    case True
    with Cons.prems show ?thesis by simp
  next
    case False
    with Cons.prems obtain p' where p': "index_py xs v = Inr p'" "p = Suc p'"
      by (auto split: sum.splits)
    from Cons.IH[OF p'(1)] False p'(2) show ?thesis
      by (auto simp: nth_Cons split: nat.splits)
  qed
qed

lemma index_py_member:
  "v \<in> set xs \<Longrightarrow> \<exists>p. index_py xs v = Inr p"
  by (induction xs) auto

lemma index_py_missing:
  "v \<notin> set xs \<Longrightarrow> index_py xs v = Inl ValueError"
  by (induction xs) auto

lemma index_py_distinct:
  "distinct xs \<Longrightarrow> p < length xs \<Longrightarrow> index_py xs (xs ! p) = Inr p"
proof -
  assume d: "distinct xs" and p: "p < length xs"
  then obtain q where q: "index_py xs (xs ! p) = Inr q"
    using index_py_member[of "xs ! p" xs] by auto
  from index_py_Inr[OF q] have "q < length xs" "xs ! q = xs ! p" by auto
  with d p have "q = p" by (simp add: nth_eq_iff_index_eq)
  with q show ?thesis by simp
qed

lemma is_permutation_mset:
  "is_permutation xs n \<Longrightarrow> mset xs = mset (map int [0..<nat n])"
  unfolding is_permutation_def range1_py_def
  by (metis mset_sort)

lemma is_permutation_props:
  assumes "is_permutation xs n"
  shows "length xs = nat n" "distinct xs" "set xs = int ` {0..<nat n}"
proof -
  have m: "mset xs = mset (map int [0..<nat n])" using assms by (rule is_permutation_mset)
  from m show "length xs = nat n" by (metis length_map length_upt mset_eq_length minus_nat.diff_0)
  have "distinct (map int [0..<nat n])" by (simp add: distinct_map)
  with m show "distinct xs" by (metis mset_eq_imp_distinct_iff)
  from m have "set xs = set (map int [0..<nat n])" by (rule mset_eq_setD)
  then show "set xs = int ` {0..<nat n}" by simp
qed

subsection \<open>The two halves of \<open>_read_instance\<close>\<close>

lemma length_range_py_jobs:
  "length (range_py 3 (3 + n)) = nat n"
  "length (range_py (4 + n) (4 + 2 * n)) = nat n"
  by (simp_all add: range_py_def)

lemma read_tables_lengths:
  assumes "read_tables raw = Inr (n, m, durations, machines)"
  shows "length durations = nat n" "length machines = nat n"
proof -
  from assms have
    "map_result (read_times (strip_lines raw)) (range_py 3 (3 + n)) = Inr durations"
    "map_result (read_indices (strip_lines raw)) (range_py (4 + n) (4 + 2 * n)) = Inr machines"
    by (auto simp: read_tables_def bind_result_def Let_def split: sum.splits)
  then have
    "length (range_py 3 (3 + n)) = length durations"
    "length (range_py (4 + n) (4 + 2 * n)) = length machines"
    by (auto simp: map_result_Inr_iff dest: list_all2_lengthD)
  then show "length durations = nat n" "length machines = nat n"
    by (simp_all add: length_range_py_jobs)
qed

lemma reorder_entry_Inr_iff:
  "reorder_entry durations machines j m = Inr d \<longleftrightarrow>
     j < length machines \<and> j < length durations \<and>
     (\<exists>p. index_py (machines ! j) (int m) = Inr p \<and> p < length (durations ! j)
          \<and> d = durations ! j ! p)"
  by (auto simp: reorder_entry_def bind_result_def nth_py_def split: sum.splits)

lemma reorder_Inr_iff:
  "reorder n m durations machines = Inr pt \<longleftrightarrow>
     length pt = nat n \<and>
     (\<forall>j<nat n. length (pt ! j) = nat m \<and>
        (\<forall>k<nat m. reorder_entry durations machines j k = Inr (pt ! j ! k)))"
  by (auto simp: reorder_def range1_py_def map_result_Inr_iff list_all2_conv_all_nth)

lemma read_instance_Inr_iff:
  "read_instance raw = Inr r \<longleftrightarrow>
     (\<exists>n m durations machines pt.
        read_tables raw = Inr (n, m, durations, machines) \<and>
        reorder n m durations machines = Inr pt \<and>
        r = (n, m, pt, sum_list (map sum_list pt)))"
  by (auto simp: read_instance_def bind_result_def split: sum.splits)

lemma read_instance_Inl_iff:
  "(\<exists>e. read_instance raw = Inl e) \<longleftrightarrow>
     (\<exists>e. read_tables raw = Inl e) \<or>
     (\<exists>n m durations machines e.
        read_tables raw = Inr (n, m, durations, machines) \<and>
        reorder n m durations machines = Inl e)"
  by (auto simp: read_instance_def bind_result_def split: sum.splits)

lemma well_formed_layout_rows:
  assumes "well_formed_layout raw" and "read_tables raw = Inr (n, m, durations, machines)"
    and "j < nat n"
  shows "length (durations ! j) = nat m" "is_permutation (machines ! j) m"
proof -
  from assms(1,2) have
    "list_all2 (\<lambda>ds ms. length ds = nat m \<and> is_permutation ms m) durations machines"
    by (simp add: well_formed_layout_def)
  moreover have "j < length durations"
    using read_tables_lengths(1)[OF assms(2)] assms(3) by simp
  ultimately show "length (durations ! j) = nat m" "is_permutation (machines ! j) m"
    by (auto simp: list_all2_conv_all_nth)
qed

lemma reorder_entry_permutation:
  assumes "j < length machines" "j < length durations"
    and "is_permutation (machines ! j) m" "length (durations ! j) = nat m" "k < nat m"
  shows "\<exists>p<nat m. machines ! j ! p = int k \<and>
           reorder_entry durations machines j k = Inr (durations ! j ! p)"
proof -
  note pp = is_permutation_props[OF assms(3)]
  from pp(3) assms(5) have "int k \<in> set (machines ! j)" by auto
  then obtain p where p: "index_py (machines ! j) (int k) = Inr p"
    using index_py_member by fastforce
  from index_py_Inr[OF p] pp(1) have "p < nat m" "machines ! j ! p = int k" by auto
  moreover have "reorder_entry durations machines j k = Inr (durations ! j ! p)"
    using assms(1,2,4) p \<open>p < nat m\<close> by (simp add: reorder_entry_Inr_iff)
  ultimately show ?thesis by blast
qed

lemma well_formed_layout_reorder:
  assumes "well_formed_layout raw" and "read_tables raw = Inr (n, m, durations, machines)"
  shows "\<exists>pt. reorder n m durations machines = Inr pt"
proof -
  note len = read_tables_lengths[OF assms(2)]
  have "\<exists>row. map_result (reorder_entry durations machines j) (range1_py m) = Inr row"
    if "j \<in> set (range1_py n)" for j
  proof (rule map_result_succeeds)
    fix k assume "k \<in> set (range1_py m)"
    then have k: "k < nat m" by (simp add: range1_py_def)
    from that have j: "j < nat n" by (simp add: range1_py_def)
    from reorder_entry_permutation[of j machines durations m k]
      well_formed_layout_rows[OF assms j] len j k
    show "\<exists>d. reorder_entry durations machines j k = Inr d" by auto
  qed
  then show ?thesis
    unfolding reorder_def by (rule map_result_succeeds)
qed

lemma unique_position:
  assumes "is_permutation xs m" "p < nat m" "q < nat m" "xs ! p = xs ! q"
  shows "p = q"
  using is_permutation_props(1,2)[OF assms(1)] assms(2-4)
  by (simp add: nth_eq_iff_index_eq)

subsection \<open>White space beyond ASCII\<close>

text \<open>
  A line that holds only the next-line character is blank and is dropped before lines
  are counted, and a no-break space separates tokens, as \<open>str.strip\<close> and
  \<open>str.split\<close> have it.
\<close>

lemma next_line_is_blank:
  "strip_lines next_line_before_times_file = [''t'', ''1 1'', ''3'', ''m'', ''1''] \<and>
   read_instance next_line_before_times_file = Inl ValueError \<and>
   read_instance next_line_before_machines_file = Inr (1, 2, [[5, 3]], 8) \<and>
   read_instance next_line_first_file = Inr (0, 5, [], 0)"
  by code_simp

lemma no_break_space_separates:
  "split_py [CHR ''3'', CHR 0xA0, CHR ''5''] = [''3'', ''5''] \<and>
   read_instance no_break_space_file = Inr (1, 2, [[5, 3]], 8)"
  by code_simp

subsection \<open>The concrete scenario\<close>

lemma scenario_tables:
  "read_tables scenario_file = Inr (2, 2, [[3, 5], [4, 2]], [[1, 0], [0, 1]])"
  by code_simp

lemma scenario_reorder:
  "reorder 2 2 [[3, 5], [4, 2]] [[1, 0], [0, 1]] = Inr [[5, 3], [4, 2]]"
  by code_simp

lemma scenario_layout: "well_formed_layout scenario_file"
  by code_simp

lemma scenario_well_formed: "well_formed scenario_file"
  by code_simp

lemma tables_parse:
  "read_tables raw = Inr (n, m, durations, machines) \<Longrightarrow>
   reorder n m durations machines = Inr pt \<Longrightarrow>
   read_instance raw = Inr (n, m, pt, sum_list (map sum_list pt))"
  by (simp add: read_instance_Inr_iff)

lemma scenario_parse:
  "read_instance scenario_file = Inr (2, 2, [[5, 3], [4, 2]], 14)"
  using tables_parse[OF scenario_tables scenario_reorder] by simp

text \<open>
  C1 (amended).  For a file with the well-formed layout, parsing succeeds and
  \<open>processing_times[j][m]\<close> is the duration at the one position \<open>p\<close> of job \<open>j\<close>'s
  duration line at which job \<open>j\<close>'s machine list, 0-indexed, holds \<open>m\<close>.  Any file whose
  tables are those of the 2-job, 2-machine scenario, durations \<open>[[3,5],[4,2]]\<close> and
  0-indexed machines \<open>[[1,0],[0,1]]\<close>, parses to \<open>processing_times = [[5,3],[4,2]]\<close>
  with \<open>max_start = 14\<close>.
\<close>

theorem reindexing_by_machine:
  "(well_formed_layout raw \<longrightarrow> read_tables raw = Inr (n, m, durations, machines) \<longrightarrow>
      (\<exists>pt ms. read_instance raw = Inr (n, m, pt, ms) \<and>
         (\<forall>j<nat n. \<forall>k<nat m.
            (\<exists>p<nat m. machines ! j ! p = int k) \<and>
            (\<forall>p<nat m. machines ! j ! p = int k \<longrightarrow> pt ! j ! k = durations ! j ! p))))
   \<and> (read_tables raw' = Inr (2, 2, [[3, 5], [4, 2]], [[1, 0], [0, 1]]) \<longrightarrow>
        read_instance raw' = Inr (2, 2, [[5, 3], [4, 2]], 14))"
proof (intro conjI impI)
  assume wf: "well_formed_layout raw"
    and tb: "read_tables raw = Inr (n, m, durations, machines)"
  from well_formed_layout_reorder[OF wf tb]
  obtain pt where pt: "reorder n m durations machines = Inr pt" by blast
  note len = read_tables_lengths[OF tb]
  have "(\<exists>p<nat m. machines ! j ! p = int k) \<and>
        (\<forall>p<nat m. machines ! j ! p = int k \<longrightarrow> pt ! j ! k = durations ! j ! p)"
    if j: "j < nat n" and k: "k < nat m" for j k
  proof -
    note row = well_formed_layout_rows[OF wf tb j]
    from reorder_entry_permutation[of j machines durations m k] row len j k
    obtain q where q: "q < nat m" "machines ! j ! q = int k"
      "reorder_entry durations machines j k = Inr (durations ! j ! q)" by auto
    from pt j k have "reorder_entry durations machines j k = Inr (pt ! j ! k)"
      by (simp add: reorder_Inr_iff)
    with q(3) have eq: "pt ! j ! k = durations ! j ! q" by simp
    have "p = q" if "p < nat m" "machines ! j ! p = int k" for p
      using unique_position[OF row(2) that(1) q(1)] that(2) q(2) by simp
    with eq q show ?thesis by blast
  qed
  with tables_parse[OF tb pt]
  show "\<exists>pt ms. read_instance raw = Inr (n, m, pt, ms) \<and>
         (\<forall>j<nat n. \<forall>k<nat m.
            (\<exists>p<nat m. machines ! j ! p = int k) \<and>
            (\<forall>p<nat m. machines ! j ! p = int k \<longrightarrow> pt ! j ! k = durations ! j ! p))"
    by blast
next
  assume "read_tables raw' = Inr (2, 2, [[3, 5], [4, 2]], [[1, 0], [0, 1]])"
  from tables_parse[OF this scenario_reorder]
  show "read_instance raw' = Inr (2, 2, [[5, 3], [4, 2]], 14)" by simp
qed

theorem reindexing_by_machine_witness:
  "well_formed_layout scenario_file \<and>
   read_tables scenario_file = Inr (2, 2, [[3, 5], [4, 2]], [[1, 0], [0, 1]]) \<and>
   (\<exists>pt ms. read_instance scenario_file = Inr (2, 2, pt, ms) \<and>
      pt ! 0 ! 0 = 5 \<and> pt ! 0 ! 1 = 3 \<and> pt ! 1 ! 0 = 4 \<and> pt ! 1 ! 1 = 2) \<and>
   read_instance scenario_file = Inr (2, 2, [[5, 3], [4, 2]], 14)"
proof -
  note inst = reindexing_by_machine[of scenario_file 2 2 "[[3, 5], [4, 2]]" "[[1, 0], [0, 1]]"
      scenario_file]
  from inst scenario_layout scenario_tables
  obtain pt ms where r: "read_instance scenario_file = Inr (2, 2, pt, ms)"
    and e: "\<And>j k p. j < 2 \<Longrightarrow> k < 2 \<Longrightarrow> p < 2 \<Longrightarrow>
              [[1, 0], [0, 1]] ! j ! p = int k \<Longrightarrow> pt ! j ! k = [[3, 5], [4, 2]] ! j ! p"
    by auto
  from e[of 0 0 1] e[of 0 1 0] e[of 1 0 0] e[of 1 1 1]
  have "pt ! 0 ! 0 = 5 \<and> pt ! 0 ! 1 = 3 \<and> pt ! 1 ! 0 = 4 \<and> pt ! 1 ! 1 = 2" by simp
  with r inst scenario_layout scenario_tables show ?thesis by blast
qed

text \<open>
  C1 as stated fails: on the scenario the parser yields \<open>[[5,3],[4,2]]\<close>, not
  \<open>[[5,3],[2,4]]\<close>.  Job 1 has machines \<open>[1,2]\<close>, so its durations \<open>[4,2]\<close> stay in place.
\<close>

theorem scenario_counterexample:
  "well_formed scenario_file \<and>
   read_tables scenario_file = Inr (2, 2, [[3, 5], [4, 2]], [[1, 0], [0, 1]]) \<and>
   read_instance scenario_file = Inr (2, 2, [[5, 3], [4, 2]], 14) \<and>
   read_instance scenario_file \<noteq> Inr (2, 2, [[5, 3], [2, 4]], 14)"
  using scenario_well_formed scenario_tables scenario_parse by simp

subsection \<open>Rows of the result\<close>

lemma mset_lookup_row:
  fixes ys :: "'a list"
  assumes perm: "is_permutation xs m"
    and ys: "length ys = nat m"
    and row: "length row = nat m"
    and look: "\<And>k. k < nat m \<Longrightarrow> \<exists>p. index_py xs (int k) = Inr p \<and> row ! k = ys ! p"
  shows "mset row = mset ys"
proof -
  define idx where "idx k = (case index_py xs (int k) of Inr p \<Rightarrow> p | Inl e \<Rightarrow> 0)" for k
  note pp = is_permutation_props[OF perm]
  have idx: "idx k < nat m \<and> xs ! idx k = int k \<and> row ! k = ys ! idx k" if "k < nat m" for k
  proof -
    from look[OF that] obtain p where p: "index_py xs (int k) = Inr p" "row ! k = ys ! p"
      by blast
    from index_py_Inr[OF p(1)] pp(1) p show ?thesis by (simp add: idx_def)
  qed
  have inj: "inj_on idx {0..<nat m}"
  proof (rule inj_onI)
    fix a b assume ab: "a \<in> {0..<nat m}" "b \<in> {0..<nat m}" and eq: "idx a = idx b"
    from ab idx[of a] have "int a = xs ! idx a" by simp
    also have "\<dots> = xs ! idx b" by (simp only: eq)
    also from ab idx[of b] have "\<dots> = int b" by simp
    finally show "a = b" by simp
  qed
  have "idx ` {0..<nat m} \<subseteq> {0..<nat m}" using idx by auto
  moreover have "card (idx ` {0..<nat m}) = card {0..<nat m}" using inj by (rule card_image)
  ultimately have img: "idx ` {0..<nat m} = {0..<nat m}"
    by (simp add: card_subset_eq)
  have "distinct (map idx [0..<nat m])" using inj by (simp add: distinct_map)
  moreover have "set (map idx [0..<nat m]) = set [0..<nat m]" using img by simp
  ultimately have ms: "mset (map idx [0..<nat m]) = mset [0..<nat m]"
    by (metis distinct_upt set_eq_iff_mset_eq_distinct)
  have "row = map (\<lambda>k. ys ! idx k) [0..<nat m]"
    using row idx by (intro nth_equalityI) simp_all
  also have "\<dots> = map (nth ys) (map idx [0..<nat m])" by (simp only: map_map comp_def)
  finally have "mset row = mset (map (nth ys) (map idx [0..<nat m]))" by (rule arg_cong)
  also have "\<dots> = image_mset (nth ys) (mset (map idx [0..<nat m]))" by (rule mset_map)
  also have "\<dots> = image_mset (nth ys) (mset [0..<nat m])" by (simp only: ms)
  also have "\<dots> = mset (map (nth ys) [0..<nat m])" by (rule mset_map[symmetric])
  also have "map (nth ys) [0..<nat m] = ys" using ys by (metis map_nth)
  finally show ?thesis .
qed

lemma reorder_row_mset:
  assumes wf: "well_formed_layout raw"
    and tb: "read_tables raw = Inr (n, m, durations, machines)"
    and pt: "reorder n m durations machines = Inr pt"
    and j: "j < nat n"
  shows "mset (pt ! j) = mset (durations ! j)"
proof (rule mset_lookup_row)
  note rows = well_formed_layout_rows[OF wf tb j]
  show "is_permutation (machines ! j) m" by (rule rows(2))
  show "length (durations ! j) = nat m" by (rule rows(1))
  show "length (pt ! j) = nat m" using pt j by (simp add: reorder_Inr_iff)
  fix k assume "k < nat m"
  with pt j have "reorder_entry durations machines j k = Inr (pt ! j ! k)"
    by (simp add: reorder_Inr_iff)
  then show "\<exists>p. index_py (machines ! j) (int k) = Inr p \<and> pt ! j ! k = durations ! j ! p"
    by (auto simp: reorder_entry_Inr_iff)
qed

text \<open>
  C7.  For a file with the well-formed layout, parsing succeeds, and for every job \<open>j\<close>
  the multiset of the entries of \<open>processing_times[j]\<close> is the multiset of the durations
  of job \<open>j\<close>'s line in task order.
\<close>

theorem reindexing_keeps_durations:
  assumes "well_formed_layout raw"
    and "read_tables raw = Inr (n, m, durations, machines)"
  shows "\<exists>pt ms. read_instance raw = Inr (n, m, pt, ms) \<and>
           (\<forall>j<nat n. mset (pt ! j) = mset (durations ! j))"
proof -
  from well_formed_layout_reorder[OF assms]
  obtain pt where pt: "reorder n m durations machines = Inr pt" by blast
  from reorder_row_mset[OF assms pt] tables_parse[OF assms(2) pt]
  show ?thesis by blast
qed

theorem reindexing_keeps_durations_witness:
  "well_formed_layout scenario_file \<and>
   read_tables scenario_file = Inr (2, 2, [[3, 5], [4, 2]], [[1, 0], [0, 1]]) \<and>
   (\<exists>pt ms. read_instance scenario_file = Inr (2, 2, pt, ms) \<and>
      mset (pt ! 0) = mset [3, 5] \<and> mset (pt ! 1) = mset [4, 2])"
proof -
  from reindexing_keeps_durations[OF scenario_layout scenario_tables]
  obtain pt ms where r: "read_instance scenario_file = Inr (2, 2, pt, ms)"
    and e: "\<And>j. j < 2 \<Longrightarrow> mset (pt ! j) = mset ([[3, 5], [4, 2]] ! j)"
    by auto
  from e[of 0] e[of 1] have "mset (pt ! 0) = mset [3, 5] \<and> mset (pt ! 1) = mset [4, 2]"
    by simp
  with r scenario_layout scenario_tables show ?thesis by blast
qed

subsection \<open>Shape of the result\<close>

lemma sum_list_rows:
  fixes pt :: "int list list"
  assumes "\<And>j. j < length pt \<Longrightarrow> length (pt ! j) = c"
  shows "sum_list (map sum_list pt) = (\<Sum>j<length pt. \<Sum>k<c. pt ! j ! k)"
proof -
  have "sum_list (map sum_list pt) = (\<Sum>j<length pt. sum_list (pt ! j))"
    by (simp add: sum_list_sum_nth atLeast0LessThan)
  also have "\<dots> = (\<Sum>j<length pt. \<Sum>k<c. pt ! j ! k)"
  proof (rule sum.cong)
    fix j assume "j \<in> {..<length pt}"
    then have "length (pt ! j) = c" using assms by simp
    then show "sum_list (pt ! j) = (\<Sum>k<c. pt ! j ! k)"
      by (simp add: sum_list_sum_nth atLeast0LessThan)
  qed simp
  finally show ?thesis .
qed

lemma well_formed_data:
  assumes "well_formed raw"
  shows "\<exists>n m durations machines.
           read_tables raw = Inr (n, m, durations, machines) \<and> well_formed_layout raw \<and>
           0 < n \<and> 0 < m \<and> (\<forall>ds\<in>set durations. \<forall>d\<in>set ds. 0 \<le> d)"
  using assms
  by (auto simp: well_formed_def list_all_iff split: sum.splits)

text \<open>
  The parser copies durations as they are and checks no sign: a file with the well-formed
  layout and a negative duration is parsed, and the duration is in the result.
\<close>

lemma negative_duration_is_copied:
  "well_formed_layout negative_duration_file \<and> \<not> well_formed negative_duration_file \<and>
   read_instance negative_duration_file = Inr (1, 2, [[5, - 3]], 2)"
  by code_simp

text \<open>
  C5.  For a well-formed instance file, parsing succeeds, \<open>processing_times\<close> has exactly
  \<open>nb_jobs\<close> rows, every row has exactly \<open>nb_machines\<close> entries, every entry is
  non-negative, and \<open>max_start\<close> is the sum of all entries of \<open>processing_times\<close>.
  (The parser copies durations and checks no sign: the entries are non-negative because
  the durations of a well-formed file are.)
\<close>

theorem parsed_instance_shape:
  assumes "well_formed raw"
  shows "\<exists>n m pt ms. read_instance raw = Inr (n, m, pt, ms) \<and>
           int (length pt) = n \<and>
           (\<forall>row\<in>set pt. int (length row) = m \<and> (\<forall>d\<in>set row. 0 \<le> d)) \<and>
           ms = (\<Sum>j<length pt. \<Sum>k<nat m. pt ! j ! k)"
proof -
  from well_formed_data[OF assms] obtain n m durations machines where
    tb: "read_tables raw = Inr (n, m, durations, machines)" and
    wf: "well_formed_layout raw" and
    pos: "0 < n" "0 < m" and
    nonneg: "\<forall>ds\<in>set durations. \<forall>d\<in>set ds. 0 \<le> d"
    by blast
  note len = read_tables_lengths[OF tb]
  from well_formed_layout_reorder[OF wf tb]
  obtain pt where pt: "reorder n m durations machines = Inr pt" by blast
  from pt have lpt: "length pt = nat n"
    and rows: "\<And>j. j < nat n \<Longrightarrow> length (pt ! j) = nat m"
    by (simp_all add: reorder_Inr_iff)
  have shape: "int (length row) = m \<and> (\<forall>d\<in>set row. 0 \<le> d)" if "row \<in> set pt" for row
  proof -
    from that lpt obtain j where j: "j < nat n" "row = pt ! j"
      by (metis in_set_conv_nth)
    have "set (pt ! j) = set (durations ! j)"
      using reorder_row_mset[OF wf tb pt j(1)] by (rule mset_eq_setD)
    moreover have "durations ! j \<in> set durations" using j(1) len(1) by simp
    ultimately have "\<forall>d\<in>set row. 0 \<le> d" using nonneg j(2) by blast
    moreover have "int (length row) = m" using rows[OF j(1)] j(2) pos(2) by simp
    ultimately show ?thesis by simp
  qed
  have "sum_list (map sum_list pt) = (\<Sum>j<length pt. \<Sum>k<nat m. pt ! j ! k)"
    using rows lpt by (intro sum_list_rows) simp
  moreover have "int (length pt) = n" using lpt pos(1) by simp
  ultimately show ?thesis
    using tables_parse[OF tb pt] shape by blast
qed

theorem parsed_instance_shape_witness:
  "well_formed scenario_file \<and>
   (\<exists>n m pt ms. read_instance scenario_file = Inr (n, m, pt, ms) \<and>
      int (length pt) = n \<and>
      (\<forall>row\<in>set pt. int (length row) = m \<and> (\<forall>d\<in>set row. 0 \<le> d)) \<and>
      ms = (\<Sum>j<length pt. \<Sum>k<nat m. pt ! j ! k))"
  using parsed_instance_shape[OF scenario_well_formed] scenario_well_formed by blast

subsection \<open>Machine lists that are not permutations\<close>

lemma init_Inl_iff:
  "(\<exists>e. init raw = Inl e) \<longleftrightarrow> (\<exists>e. read_instance raw = Inl e)"
  by (auto simp: init_def bind_result_def split: sum.splits prod.splits)

lemma reorder_missing_fails:
  assumes "j < nat n" "k < nat m" "j < length machines" "int k \<notin> set (machines ! j)"
  shows "\<exists>e. reorder n m durations machines = Inl e"
proof -
  have "reorder_entry durations machines j k = Inl ValueError"
    using assms(3,4) by (simp add: reorder_entry_def bind_result_def nth_py_def index_py_missing)
  moreover have "k \<in> set (range1_py m)" using assms(2) by (simp add: range1_py_def)
  ultimately obtain e where
    "map_result (reorder_entry durations machines j) (range1_py m) = Inl e"
    using map_result_fails by fastforce
  moreover have "j \<in> set (range1_py n)" using assms(1) by (simp add: range1_py_def)
  ultimately show ?thesis
    unfolding reorder_def
    using map_result_fails[of j "range1_py n"
        "\<lambda>j. map_result (reorder_entry durations machines j) (range1_py m)" e]
    by simp
qed

lemma count_list_distinct:
  "distinct xs \<Longrightarrow> x \<in> set xs \<Longrightarrow> count_list xs x = 1"
  by (induction xs) auto

lemma short_list_all_present:
  fixes xs :: "int list"
  assumes "length xs \<le> c" and "\<And>k. k < c \<Longrightarrow> int k \<in> set xs" and "k < c"
  shows "count_list xs (int k) = 1"
proof -
  have sub: "int ` {0..<c} \<subseteq> set xs" using assms(2) by auto
  have "card (int ` {0..<c}) = c" by (simp add: card_image)
  with sub have "c \<le> card (set xs)" by (metis List.finite_set card_mono)
  with assms(1) card_length[of xs] have "card (set xs) = length xs" by simp
  then have "distinct xs" by (rule card_distinct)
  moreover have "int k \<in> set xs" using assms(2,3) by simp
  ultimately show ?thesis by (rule count_list_distinct)
qed

text \<open>
  C2 (amended).  Construction fails whenever, for some job \<open>j\<close>, some machine index of
  \<open>[0, nb_machines)\<close> is missing from job \<open>j\<close>'s machine list, or does not appear exactly
  once in a machine list of at most \<open>nb_machines\<close> entries.
\<close>

theorem missing_machine_fails:
  assumes "read_tables raw = Inr (n, m, durations, machines)"
    and "j < nat n" and "k < nat m"
    and "int k \<notin> set (machines ! j) \<or>
         (length (machines ! j) \<le> nat m \<and> count_list (machines ! j) (int k) \<noteq> 1)"
  shows "\<exists>e. init raw = Inl e"
proof -
  have j: "j < length machines"
    using read_tables_lengths(2)[OF assms(1)] assms(2) by simp
  have "\<exists>k'<nat m. int k' \<notin> set (machines ! j)"
  proof (rule ccontr)
    assume "\<not> (\<exists>k'<nat m. int k' \<notin> set (machines ! j))"
    then have all: "\<And>k'. k' < nat m \<Longrightarrow> int k' \<in> set (machines ! j)" by blast
    with assms(3,4) have "length (machines ! j) \<le> nat m"
      "count_list (machines ! j) (int k) \<noteq> 1" by auto
    with short_list_all_present[of "machines ! j" "nat m" k] all assms(3)
    show False by blast
  qed
  then obtain k' where "k' < nat m" "int k' \<notin> set (machines ! j)" by blast
  from reorder_missing_fails[OF assms(2) this(1) j this(2)]
  obtain e where "reorder n m durations machines = Inl e" by blast
  with assms(1) have "\<exists>e. read_instance raw = Inl e"
    by (auto simp: read_instance_Inl_iff)
  then show ?thesis by (simp add: init_Inl_iff)
qed

theorem missing_machine_fails_witness:
  "read_tables missing_machine_file = Inr (1, 2, [[3, 5]], [[0, 0]]) \<and>
   int 1 \<notin> set ([[0, 0]] ! 0) \<and>
   length ([[0 :: int, 0]] ! 0) \<le> nat 2 \<and> count_list ([[0, 0]] ! 0) (int 0) \<noteq> 1 \<and>
   (\<exists>e. init missing_machine_file = Inl e)"
proof -
  have tb: "read_tables missing_machine_file = Inr (1, 2, [[3, 5]], [[0, 0]])"
    by code_simp
  have a: "int 1 \<notin> set ([[0, 0]] ! 0)" by simp
  have b: "length ([[0 :: int, 0]] ! 0) \<le> nat 2 \<and> count_list ([[0, 0]] ! 0) (int 0) \<noteq> 1"
    by simp
  from missing_machine_fails[OF tb, of 0 1] a
  have "\<exists>e. init missing_machine_file = Inl e" by simp
  moreover from missing_machine_fails[OF tb, of 0 0] b
  have "\<exists>e. init missing_machine_file = Inl e" by simp
  ultimately show ?thesis using tb a b by blast
qed

text \<open>
  C2 as stated fails: a machine list that is longer than \<open>nb_machines\<close> may repeat an
  index and still hold every index; \<open>index\<close> then finds the first occurrence and
  construction succeeds.  Here job 0 names machine 1 twice (0-indexed: 0).
\<close>

theorem duplicate_machine_counterexample:
  "read_tables duplicate_machine_file = Inr (1, 2, [[3, 5, 7]], [[0, 0, 1]]) \<and>
   count_list ([[0, 0, 1]] ! 0) (0 :: int) = 2 \<and>
   init duplicate_machine_file =
     Inr \<lparr>nb_jobs = 1, nb_machines = 2, processing_times = [[3, 7]], max_start = 10\<rparr>"
  by code_simp

subsection \<open>Short files\<close>

lemma read_tables_header_Inl:
  "read_header (strip_lines raw) = Inl e \<Longrightarrow> read_tables raw = Inl e"
  by (simp add: read_tables_def bind_result_def)

lemma read_instance_tables_Inl:
  "read_tables raw = Inl e \<Longrightarrow> read_instance raw = Inl e"
  by (simp add: read_instance_def bind_result_def)

lemma read_header_short:
  "length lines < 2 \<Longrightarrow> read_header lines = Inl IndexError"
  by (simp add: read_header_def bind_result_def nth_py_def)

lemma read_tables_Inl_cases:
  assumes "read_header (strip_lines raw) = Inr (n, m)" and "read_tables raw = Inl e"
  shows "(\<exists>i\<in>set (range_py 3 (3 + n)). read_times (strip_lines raw) i = Inl e) \<or>
         (\<exists>i\<in>set (range_py (4 + n) (4 + 2 * n)). read_indices (strip_lines raw) i = Inl e)"
  using assms
  by (auto simp: read_tables_def bind_result_def Let_def split: sum.splits
           dest: map_result_Inl)

lemma read_tables_short_fails:
  assumes hd: "read_header (strip_lines raw) = Inr (n, m)" and n: "1 \<le> n"
    and short: "int (length (strip_lines raw)) < 4 + 2 * n"
  shows "\<exists>e. read_tables raw = Inl e"
proof -
  let ?lines = "strip_lines raw"
  let ?i = "nat (3 + 2 * n)"
  have mem: "?i \<in> set (range_py (4 + n) (4 + 2 * n))"
    using n by (auto simp: range_py_def)
  have "length ?lines \<le> ?i" using short by linarith
  then have "read_indices ?lines ?i = Inl IndexError"
    by (simp add: read_indices_def bind_result_def nth_py_def)
  with mem obtain e where
    "map_result (read_indices ?lines) (range_py (4 + n) (4 + 2 * n)) = Inl e"
    using map_result_fails by fastforce
  with hd show ?thesis
    by (auto simp: read_tables_def bind_result_def Let_def split: sum.splits)
qed

lemma int_row_succeeds:
  assumes "\<forall>t\<in>set ts. \<not> isl (int_py t)"
  shows "\<exists>vs. map_result int_py ts = Inr vs"
    and "\<exists>vs. map_result (\<lambda>x. bind_result (int_py x) (\<lambda>v. Inr (v - 1))) ts = Inr vs"
proof -
  have ok: "\<exists>v. int_py t = Inr v" if "t \<in> set ts" for t
    using assms that by (cases "int_py t") auto
  then show "\<exists>vs. map_result int_py ts = Inr vs"
    by (intro map_result_succeeds) blast
  show "\<exists>vs. map_result (\<lambda>x. bind_result (int_py x) (\<lambda>v. Inr (v - 1))) ts = Inr vs"
  proof (rule map_result_succeeds)
    fix t assume "t \<in> set ts"
    from ok[OF this] show "\<exists>y. bind_result (int_py t) (\<lambda>v. Inr (v - 1)) = Inr y"
      by (auto simp: bind_result_def)
  qed
qed

lemma read_row_error_kind:
  assumes "i < length lines \<longrightarrow> (\<forall>t\<in>set (split_py (lines ! i)). \<not> isl (int_py t))"
  shows "read_times lines i = Inl e \<Longrightarrow> e = IndexError"
    and "read_indices lines i = Inl e \<Longrightarrow> e = IndexError"
proof -
  show "e = IndexError" if "read_times lines i = Inl e"
  proof (cases "i < length lines")
    case True
    with assms int_row_succeeds(1)[of "split_py (lines ! i)"] that show ?thesis
      by (auto simp: read_times_def bind_result_def nth_py_def)
  next
    case False
    with that show ?thesis by (simp add: read_times_def bind_result_def nth_py_def)
  qed
  show "e = IndexError" if "read_indices lines i = Inl e"
  proof (cases "i < length lines")
    case True
    with assms int_row_succeeds(2)[of "split_py (lines ! i)"] that show ?thesis
      by (auto simp: read_indices_def bind_result_def nth_py_def)
  next
    case False
    with that show ?thesis by (simp add: read_indices_def bind_result_def nth_py_def)
  qed
qed

text \<open>
  C8 (amended).  A file of fewer than two non-blank lines fails with \<open>IndexError\<close>.
  When the header gives \<open>nb_jobs \<ge> 1\<close> and the file has fewer than \<open>4 + 2 * nb_jobs\<close>
  non-blank lines, parsing fails and returns no instance; the failure is \<open>IndexError\<close>
  when every token of the duration and machine lines that are present is an integer.
\<close>

theorem short_input_fails:
  "(length (strip_lines raw) < 2 \<longrightarrow> read_instance raw = Inl IndexError) \<and>
   (read_header (strip_lines raw) = Inr (n, m) \<longrightarrow> 1 \<le> n \<longrightarrow>
    int (length (strip_lines raw)) < 4 + 2 * n \<longrightarrow>
      (\<exists>e. read_instance raw = Inl e) \<and>
      (data_tokens_are_integers (strip_lines raw) n \<longrightarrow> read_instance raw = Inl IndexError))"
proof (intro conjI impI)
  assume "length (strip_lines raw) < 2"
  then have "read_header (strip_lines raw) = Inl IndexError" by (rule read_header_short)
  then show "read_instance raw = Inl IndexError"
    by (intro read_instance_tables_Inl read_tables_header_Inl)
next
  assume hd: "read_header (strip_lines raw) = Inr (n, m)" and n: "1 \<le> n"
    and short: "int (length (strip_lines raw)) < 4 + 2 * n"
  from read_tables_short_fails[OF hd n short]
  obtain e where e: "read_tables raw = Inl e" by blast
  then show "\<exists>e. read_instance raw = Inl e"
    using read_instance_tables_Inl by blast
  assume tok: "data_tokens_are_integers (strip_lines raw) n"
  have "e = IndexError"
    using read_tables_Inl_cases[OF hd e] tok
      read_row_error_kind[of _ "strip_lines raw" e]
    unfolding data_tokens_are_integers_def by (metis Un_iff set_append)
  with e show "read_instance raw = Inl IndexError"
    using read_instance_tables_Inl by blast
qed

theorem short_input_fails_witness:
  "length (strip_lines title_only_file) < 2 \<and>
   read_instance title_only_file = Inl IndexError \<and>
   read_header (strip_lines truncated_file) = Inr (2, 2) \<and> (1 :: int) \<le> 2 \<and>
   int (length (strip_lines truncated_file)) < 4 + 2 * 2 \<and>
   data_tokens_are_integers (strip_lines truncated_file) 2 \<and>
   read_instance truncated_file = Inl IndexError"
proof -
  have a: "length (strip_lines title_only_file) < 2" by code_simp
  have b: "read_header (strip_lines truncated_file) = Inr (2, 2)" by code_simp
  have c: "int (length (strip_lines truncated_file)) < 4 + 2 * 2" by code_simp
  have d: "data_tokens_are_integers (strip_lines truncated_file) 2" by code_simp
  from short_input_fails[of title_only_file] a
  have "read_instance title_only_file = Inl IndexError" by blast
  moreover from short_input_fails[of truncated_file 2 2] b c d
  have "read_instance truncated_file = Inl IndexError" by simp
  ultimately show ?thesis using a b c d by simp
qed

text \<open>
  C8 as stated fails twice.  A short file whose duration line holds a token that is no
  integer fails with \<open>ValueError\<close>, raised before the missing line is reached; and with
  \<open>nb_jobs = 0\<close> the parser reads nothing after the header, so a file of two lines is
  parsed.
\<close>

theorem short_input_counterexample:
  "read_header (strip_lines short_bad_token_file) = Inr (2, 2) \<and>
   int (length (strip_lines short_bad_token_file)) < 4 + 2 * 2 \<and>
   read_instance short_bad_token_file = Inl ValueError \<and>
   read_header (strip_lines no_job_file) = Inr (0, 3) \<and>
   int (length (strip_lines no_job_file)) < 4 + 2 * 0 \<and>
   read_instance no_job_file = Inr (0, 3, [], 0)"
  by code_simp

section \<open>Properties of the two methods\<close>

subsection \<open>\<open>evaluate_solution\<close>\<close>

text \<open>
  C3.  When \<open>solution\<close> is no dictionary, or is a dictionary without the key
  \<open>jobs_order\<close>, or without the key \<open>machines_order\<close>, \<open>evaluate_solution\<close> returns
  exactly \<open>1000000000\<close>.  The function is total: it has no branch that raises.
\<close>

theorem malformed_solution_penalty:
  assumes "\<not> isinstance_dict solution
           \<or> \<not> dict_contains solution (PyStr ''jobs_order'')
           \<or> \<not> dict_contains solution (PyStr ''machines_order'')"
  shows "fst (evaluate_solution solution st) = PyInt 1000000000"
  using assms by (auto simp: evaluate_solution_def)

theorem malformed_solution_penalty_witness:
  "\<not> isinstance_dict (PyList [PyInt 0, PyInt 1]) \<and>
   fst (evaluate_solution (PyList [PyInt 0, PyInt 1]) scenario_state) = PyInt 1000000000 \<and>
   \<not> dict_contains (PyDict [(PyStr ''machines_order'', PyList []), (PyStr ''objective'', PyInt 42)])
       (PyStr ''jobs_order'') \<and>
   fst (evaluate_solution
          (PyDict [(PyStr ''machines_order'', PyList []), (PyStr ''objective'', PyInt 42)])
          scenario_state)
     = PyInt 1000000000 \<and>
   \<not> dict_contains (PyDict [(PyStr ''jobs_order'', PyList [])]) (PyStr ''machines_order'') \<and>
   fst (evaluate_solution (PyDict [(PyStr ''jobs_order'', PyList [])]) scenario_state)
     = PyInt 1000000000"
  using malformed_solution_penalty[of "PyList [PyInt 0, PyInt 1]" scenario_state]
    malformed_solution_penalty
      [of "PyDict [(PyStr ''machines_order'', PyList []), (PyStr ''objective'', PyInt 42)]"
          scenario_state]
    malformed_solution_penalty[of "PyDict [(PyStr ''jobs_order'', PyList [])]" scenario_state]
  by simp

text \<open>
  C4.  For a dictionary that has both keys \<open>jobs_order\<close> and \<open>machines_order\<close>,
  \<open>evaluate_solution\<close> returns the value stored under \<open>objective\<close> when that key is
  present, and \<open>1000000000\<close> when it is absent.
\<close>

theorem objective_or_penalty:
  assumes "dict_contains (PyDict items) (PyStr ''jobs_order'')"
    and "dict_contains (PyDict items) (PyStr ''machines_order'')"
  shows "(map_of items (PyStr ''objective'') = Some v \<longrightarrow>
            fst (evaluate_solution (PyDict items) st) = v) \<and>
         (\<not> dict_contains (PyDict items) (PyStr ''objective'') \<longrightarrow>
            fst (evaluate_solution (PyDict items) st) = PyInt 1000000000)"
  using assms by (auto simp: evaluate_solution_def)

theorem objective_or_penalty_witness:
  "dict_contains (PyDict [(PyStr ''jobs_order'', PyList []), (PyStr ''machines_order'', PyList []),
                          (PyStr ''objective'', PyInt 42)]) (PyStr ''jobs_order'') \<and>
   dict_contains (PyDict [(PyStr ''jobs_order'', PyList []), (PyStr ''machines_order'', PyList []),
                          (PyStr ''objective'', PyInt 42)]) (PyStr ''machines_order'') \<and>
   fst (evaluate_solution
          (PyDict [(PyStr ''jobs_order'', PyList []), (PyStr ''machines_order'', PyList []),
                   (PyStr ''objective'', PyInt 42)]) scenario_state) = PyInt 42 \<and>
   \<not> dict_contains (PyDict [(PyStr ''jobs_order'', PyList []), (PyStr ''machines_order'', PyList [])])
       (PyStr ''objective'') \<and>
   fst (evaluate_solution
          (PyDict [(PyStr ''jobs_order'', PyList []), (PyStr ''machines_order'', PyList [])])
          scenario_state) = PyInt 1000000000"
  using objective_or_penalty
      [of "[(PyStr ''jobs_order'', PyList []), (PyStr ''machines_order'', PyList []),
            (PyStr ''objective'', PyInt 42)]" "PyInt 42" scenario_state]
    objective_or_penalty
      [of "[(PyStr ''jobs_order'', PyList []), (PyStr ''machines_order'', PyList [])]"
          "PyNone" scenario_state]
  by simp

subsection \<open>\<open>random_solution\<close>\<close>

lemma randbelow_less: "0 < n \<Longrightarrow> fst (randbelow n g) < n"
  by (simp add: randbelow_def)

lemma shuffle_loop_mset:
  "\<forall>i\<in>set ixs. i < length x \<Longrightarrow> mset (fst (shuffle_loop ixs x g)) = mset x"
proof (induction ixs arbitrary: x g)
  case Nil
  then show ?case by simp
next
  case (Cons i ixs)
  obtain j g' where r: "randbelow (i + 1) g = (j, g')" by (cases "randbelow (i + 1) g")
  with randbelow_less[of "i + 1" g] have j: "j < i + 1" by simp
  from Cons.prems have i: "i < length x" by simp
  let ?x = "x[i := x ! j, j := x ! i]"
  have "mset ?x = mset x" using i j by (intro mset_swap) simp_all
  moreover have "mset (fst (shuffle_loop ixs ?x g')) = mset ?x"
    using Cons.prems by (intro Cons.IH) simp
  ultimately show ?case using r by simp
qed

lemma shuffle_mset: "mset (fst (shuffle x g)) = mset x"
  unfolding shuffle_def by (rule shuffle_loop_mset) simp

lemma sorted_range: "sorted (map int [0..<c])"
  by (induction c) (auto simp: sorted_append)

lemma shuffle_is_permutation:
  "is_permutation (fst (shuffle (map int (range1_py n)) g)) n"
proof -
  have "mset (map int (range1_py n)) = mset (fst (shuffle (map int (range1_py n)) g))"
    by (simp only: shuffle_mset)
  moreover have "sorted (map int (range1_py n))"
    unfolding range1_py_def by (rule sorted_range)
  ultimately show ?thesis
    unfolding is_permutation_def by (rule properties_for_sort)
qed

lemma orders_loop_permutations:
  "orders_loop ms n g = (orders, g') \<Longrightarrow>
   length orders = length ms \<and> (\<forall>order\<in>set orders. is_permutation order n)"
proof (induction ms arbitrary: g orders g')
  case Nil
  then show ?case by simp
next
  case (Cons m ms)
  obtain order g1 where s: "shuffle (map int (range1_py n)) g = (order, g1)"
    by (cases "shuffle (map int (range1_py n)) g")
  obtain rest g2 where l: "orders_loop ms n g1 = (rest, g2)"
    by (cases "orders_loop ms n g1")
  from Cons.prems s l have o: "orders = order # rest" by simp
  from shuffle_is_permutation[of n g] s have "is_permutation order n" by simp
  with Cons.IH[OF l] o show ?case by simp
qed

lemma random_solution_result:
  "\<exists>jobs_order machines_order g.
     random_solution st =
       (PyDict [(PyStr ''jobs_order'', py_orders jobs_order),
                (PyStr ''machines_order'', py_orders machines_order)],
        st\<lparr>rng := g\<rparr>) \<and>
     length jobs_order = nat (nb_machines (self st)) \<and>
     (\<forall>order\<in>set jobs_order. is_permutation order (nb_jobs (self st))) \<and>
     length machines_order = nat (nb_jobs (self st)) \<and>
     (\<forall>order\<in>set machines_order. is_permutation order (nb_machines (self st)))"
proof -
  obtain jo g1 where
    a: "orders_loop (range1_py (nb_machines (self st))) (nb_jobs (self st)) (rng st) = (jo, g1)"
    by (cases "orders_loop (range1_py (nb_machines (self st))) (nb_jobs (self st)) (rng st)")
  obtain mo g2 where
    b: "orders_loop (range1_py (nb_jobs (self st))) (nb_machines (self st)) g1 = (mo, g2)"
    by (cases "orders_loop (range1_py (nb_jobs (self st))) (nb_machines (self st)) g1")
  have "random_solution st =
       (PyDict [(PyStr ''jobs_order'', py_orders jo), (PyStr ''machines_order'', py_orders mo)],
        st\<lparr>rng := g2\<rparr>)"
    using a b by (simp add: random_solution_def)
  moreover from orders_loop_permutations[OF a]
  have "length jo = nat (nb_machines (self st))"
    "\<forall>order\<in>set jo. is_permutation order (nb_jobs (self st))"
    by (simp_all add: range1_py_def)
  moreover from orders_loop_permutations[OF b]
  have "length mo = nat (nb_jobs (self st))"
    "\<forall>order\<in>set mo. is_permutation order (nb_machines (self st))"
    by (simp_all add: range1_py_def)
  ultimately show ?thesis by blast
qed

text \<open>
  C6.  For an instance whose counts are not negative, the value returned by
  \<open>random_solution\<close> is a dictionary with exactly the keys \<open>jobs_order\<close> and
  \<open>machines_order\<close>: \<open>jobs_order\<close> is a list of exactly \<open>nb_machines\<close> lists, each a
  permutation of \<open>[0, nb_jobs)\<close>; \<open>machines_order\<close> is a list of exactly \<open>nb_jobs\<close>
  lists, each a permutation of \<open>[0, nb_machines)\<close>; there is no key \<open>objective\<close>.
\<close>

theorem random_solution_permutations:
  assumes "0 \<le> nb_jobs (self st)" and "0 \<le> nb_machines (self st)"
  shows "\<exists>jobs_order machines_order.
           fst (random_solution st) =
             PyDict [(PyStr ''jobs_order'', py_orders jobs_order),
                     (PyStr ''machines_order'', py_orders machines_order)] \<and>
           int (length jobs_order) = nb_machines (self st) \<and>
           (\<forall>order\<in>set jobs_order. is_permutation order (nb_jobs (self st))) \<and>
           int (length machines_order) = nb_jobs (self st) \<and>
           (\<forall>order\<in>set machines_order. is_permutation order (nb_machines (self st))) \<and>
           \<not> dict_contains (fst (random_solution st)) (PyStr ''objective'')"
proof -
  from random_solution_result[of st] obtain jo mo g where
    r: "random_solution st =
         (PyDict [(PyStr ''jobs_order'', py_orders jo), (PyStr ''machines_order'', py_orders mo)],
          st\<lparr>rng := g\<rparr>)" and
    p: "length jo = nat (nb_machines (self st))"
       "\<forall>order\<in>set jo. is_permutation order (nb_jobs (self st))"
       "length mo = nat (nb_jobs (self st))"
       "\<forall>order\<in>set mo. is_permutation order (nb_machines (self st))"
    by blast
  from r have "\<not> dict_contains (fst (random_solution st)) (PyStr ''objective'')" by simp
  moreover from p(1,3) assms have "int (length jo) = nb_machines (self st)"
    "int (length mo) = nb_jobs (self st)" by simp_all
  ultimately show ?thesis using r p(2,4) by auto
qed

theorem random_solution_permutations_witness:
  "0 \<le> nb_jobs (self scenario_state) \<and> 0 \<le> nb_machines (self scenario_state) \<and>
   fst (random_solution scenario_state) =
     PyDict [(PyStr ''jobs_order'', py_orders [[1, 0], [0, 1]]),
             (PyStr ''machines_order'', py_orders [[1, 0], [0, 1]])] \<and>
   (\<exists>jobs_order machines_order.
      fst (random_solution scenario_state) =
        PyDict [(PyStr ''jobs_order'', py_orders jobs_order),
                (PyStr ''machines_order'', py_orders machines_order)] \<and>
      int (length jobs_order) = 2 \<and>
      (\<forall>order\<in>set jobs_order. is_permutation order 2) \<and>
      int (length machines_order) = 2 \<and>
      (\<forall>order\<in>set machines_order. is_permutation order 2))"
proof -
  have a: "0 \<le> nb_jobs (self scenario_state)" "0 \<le> nb_machines (self scenario_state)"
    by (simp_all add: scenario_state_def)
  have v: "fst (random_solution scenario_state) =
     PyDict [(PyStr ''jobs_order'', py_orders [[1, 0], [0, 1]]),
             (PyStr ''machines_order'', py_orders [[1, 0], [0, 1]])]"
    by code_simp
  from random_solution_permutations[OF a] a v show ?thesis
    by (simp add: scenario_state_def)
qed

subsection \<open>The two methods together\<close>

text \<open>
  C9.  Neither method changes the instance: after \<open>evaluate_solution\<close>, with any
  argument, and after \<open>random_solution\<close>, the fields \<open>nb_jobs\<close>, \<open>nb_machines\<close>,
  \<open>processing_times\<close> and \<open>max_start\<close> of \<open>self\<close> are what they were.
  (\<open>random_solution\<close> changes the generator only; \<open>evaluate_solution\<close> changes nothing.)
\<close>

theorem methods_keep_instance:
  "snd (evaluate_solution solution st) = st \<and>
   self (snd (evaluate_solution solution st)) = self st \<and>
   self (snd (random_solution st)) = self st \<and>
   nb_jobs (self (snd (random_solution st))) = nb_jobs (self st) \<and>
   nb_machines (self (snd (random_solution st))) = nb_machines (self st) \<and>
   processing_times (self (snd (random_solution st))) = processing_times (self st) \<and>
   max_start (self (snd (random_solution st))) = max_start (self st)"
proof -
  from random_solution_result[of st] obtain g where
    "snd (random_solution st) = st\<lparr>rng := g\<rparr>" by force
  then show ?thesis by (simp add: evaluate_solution_def)
qed

theorem methods_keep_instance_witness:
  "snd (evaluate_solution (PyDict [(PyStr ''jobs_order'', PyList [])]) scenario_state)
     = scenario_state \<and>
   self (snd (random_solution scenario_state)) = self scenario_state \<and>
   nb_jobs (self (snd (random_solution scenario_state))) = 2 \<and>
   nb_machines (self (snd (random_solution scenario_state))) = 2 \<and>
   processing_times (self (snd (random_solution scenario_state))) = [[5, 3], [4, 2]] \<and>
   max_start (self (snd (random_solution scenario_state))) = 14"
  using methods_keep_instance[of "PyDict [(PyStr ''jobs_order'', PyList [])]" scenario_state]
  by (simp add: scenario_state_def)

text \<open>
  C10.  Evaluating a solution made by \<open>random_solution\<close> always gives \<open>1000000000\<close>: the
  solution has both ordering keys and no key \<open>objective\<close>.
\<close>

theorem random_solution_evaluates_to_penalty:
  "fst (evaluate_solution (fst (random_solution st)) (snd (random_solution st)))
     = PyInt 1000000000 \<and>
   fst (evaluate_solution (fst (random_solution st)) st') = PyInt 1000000000"
proof -
  from random_solution_result[of st] obtain jo mo where
    "fst (random_solution st) =
       PyDict [(PyStr ''jobs_order'', py_orders jo), (PyStr ''machines_order'', py_orders mo)]"
    by force
  then show ?thesis by (simp add: evaluate_solution_def)
qed

theorem random_solution_evaluates_to_penalty_witness:
  "fst (evaluate_solution (fst (random_solution scenario_state))
          (snd (random_solution scenario_state))) = PyInt 1000000000"
  using random_solution_evaluates_to_penalty[of scenario_state scenario_state]
  by simp

end
